theory Spec2Isabelle
  imports Main "HOL-Library.Sublist" "HOL-Library.Multiset"
begin

section \<open>Connection lifecycle controller\<close>

subsection \<open>Data model\<close>

text \<open>
  A connection profile (\<open>ConnectionInfo\<close>): its identity, the connection options (of
  which the controller reads the connection string), the optional favorite entry and the
  optional \<open>lastUsed\<close> date. A date is the integer \<open>getTime()\<close> returns: milliseconds
  since the epoch. Values are immutable here, so \<open>cloneDeep\<close> is the identity.
\<close>

record ConnectionOptions =
  connectionString :: string

record ConnectionFavoriteOptions =
  name :: string
  color :: "string option"

record ConnectionInfo =
  id' :: string
  connectionOptions :: ConnectionOptions
  favorite :: "ConnectionFavoriteOptions option"
  lastUsed :: "int option"

text \<open>
  Modelled from the spec: the attempt handle that \<open>createConnectionAttempt\<close> of
  \<open>../modules/connection-attempt\<close> (not among these files) constructs, fresh at each
  call. The controller only stores it, compares it with null and calls its methods; a
  handle is identified by the number of the call that created it.
\<close>

datatype ConnectionAttempt = Attempt nat

record State =
  activeConnectionId :: "string option"
  activeConnectionInfo :: ConnectionInfo
  connectingStatusText :: string
  connectionAttempt :: "ConnectionAttempt option"
  connectionErrorMessage :: "string option"
  connections :: "ConnectionInfo list"
  oidcDeviceAuthVerificationUrl :: "string option"
  oidcDeviceAuthUserCode :: "string option"

text \<open>\<open>createNewConnectionInfo\<close>; the fresh \<open>uuidv4()\<close> is the argument.\<close>

definition createNewConnectionInfo :: "string \<Rightarrow> ConnectionInfo" where
  "createNewConnectionInfo uuid =
     \<lparr> id' = uuid,
       connectionOptions = \<lparr> connectionString = ''mongodb://localhost:27017'' \<rparr>,
       favorite = None,
       lastUsed = None \<rparr>"

definition defaultConnectionsState :: "string \<Rightarrow> State" where
  "defaultConnectionsState uuid =
     \<lparr> activeConnectionId = None,
       activeConnectionInfo = createNewConnectionInfo uuid,
       connectingStatusText = '''',
       connectionAttempt = None,
       connectionErrorMessage = None,
       connections = [],
       oidcDeviceAuthVerificationUrl = None,
       oidcDeviceAuthUserCode = None \<rparr>"

text \<open>
  The actions of the reducer, in the order of the type \<open>Action\<close>. \<open>OtherAction\<close> stands
  for any action whose type is none of these: the \<open>default\<close> branch of the switch.
\<close>

datatype Action =
    AttemptConnect ConnectionAttempt string
  | OidcAttemptConnectNotifyDeviceAuth string string
  | CancelConnectionAttempt
  | ConnectionAttemptErrored string
  | ConnectionAttemptSucceeded
  | NewConnection ConnectionInfo
  | SetActiveConnection ConnectionInfo
  | SetConnections "ConnectionInfo list"
  | SetConnectionsAndSelect "ConnectionInfo list" ConnectionInfo
  | OtherAction

fun connectionsReducer :: "State \<Rightarrow> Action \<Rightarrow> State" where
  "connectionsReducer s (AttemptConnect attempt text) =
     s\<lparr> connectionAttempt := Some attempt,
         connectingStatusText := text,
         connectionErrorMessage := None,
         oidcDeviceAuthVerificationUrl := None,
         oidcDeviceAuthUserCode := None \<rparr>"
| "connectionsReducer s CancelConnectionAttempt =
     s\<lparr> connectionAttempt := None, connectionErrorMessage := None \<rparr>"
| "connectionsReducer s ConnectionAttemptSucceeded =
     s\<lparr> connectionAttempt := None, connectionErrorMessage := None \<rparr>"
| "connectionsReducer s (ConnectionAttemptErrored msg) =
     s\<lparr> connectionAttempt := None, connectionErrorMessage := Some msg \<rparr>"
| "connectionsReducer s (OidcAttemptConnectNotifyDeviceAuth url code) =
     s\<lparr> oidcDeviceAuthVerificationUrl := Some url,
         oidcDeviceAuthUserCode := Some code \<rparr>"
| "connectionsReducer s (SetActiveConnection info) =
     s\<lparr> activeConnectionId := Some (id' info),
         activeConnectionInfo := info,
         connectionErrorMessage := None \<rparr>"
| "connectionsReducer s (NewConnection info) =
     s\<lparr> activeConnectionId := Some (id' info),
         activeConnectionInfo := info,
         connectionErrorMessage := None \<rparr>"
| "connectionsReducer s (SetConnections conns) =
     s\<lparr> connections := conns, connectionErrorMessage := None \<rparr>"
| "connectionsReducer s (SetConnectionsAndSelect conns info) =
     s\<lparr> connections := conns,
         activeConnectionId := Some (id' info),
         activeConnectionInfo := info,
         connectionErrorMessage := None \<rparr>"
| "connectionsReducer s OtherAction = s"

text \<open>The state \<open>useReducer\<close> holds after the actions \<open>as\<close> were dispatched in order.\<close>

definition reduceAll :: "State \<Rightarrow> Action list \<Rightarrow> State" where
  "reduceAll s as = foldl connectionsReducer s as"

text \<open>An attempt in flight excludes an error message.\<close>

definition attemptExcludesError :: "State \<Rightarrow> bool" where
  "attemptExcludesError s =
     (connectionAttempt s = None \<or> connectionErrorMessage s = None)"

text \<open>What one action does to the two fields: one of the three ways of the reducer.\<close>

definition clearsError :: "State \<Rightarrow> State \<Rightarrow> bool" where
  "clearsError s s' = (connectionErrorMessage s' = None)"

definition keepsAttemptAndError :: "State \<Rightarrow> State \<Rightarrow> bool" where
  "keepsAttemptAndError s s' =
     (connectionAttempt s' = connectionAttempt s \<and>
      connectionErrorMessage s' = connectionErrorMessage s)"

definition setsErrorClearsAttempt :: "Action \<Rightarrow> State \<Rightarrow> bool" where
  "setsErrorClearsAttempt action s' =
     (case action of
        ConnectionAttemptErrored msg \<Rightarrow>
          connectionErrorMessage s' = Some msg \<and> connectionAttempt s' = None
      | _ \<Rightarrow> False)"

subsection \<open>Collaborators\<close>

text \<open>
  What the controller calls and these files do not hold, as parameters:
  \<^item> \<open>parseConnectionString\<close>: \<open>new ConnectionString(s)\<close> of
    \<open>mongodb-connection-string-url\<close>, which throws on a malformed string (\<open>Inl\<close> with
    the message) and otherwise gives an object whose \<open>searchParams.get\<close> is the
    function returned (\<open>None\<close> is null);
  \<^item> \<open>getConnectionTitle\<close> of \<open>mongodb-data-service\<close>;
  \<^item> \<open>onConnected\<close>, the callback of the owner: the message it throws with, if it does;
  \<^item> the faults of the connection storage: the message \<open>load\<close>, \<open>save\<close> or
    \<open>delete\<close> throws with, if it does, for the argument given;
  \<^item> \<open>now\<close>: the time \<open>new Date()\<close> reads.
\<close>

record Env =
  parseConnectionString :: "string \<Rightarrow> string + (string \<Rightarrow> string option)"
  getConnectionTitle :: "ConnectionInfo \<Rightarrow> string"
  onConnectedError :: "string option"
  loadError :: "string \<Rightarrow> string option"
  saveError :: "ConnectionInfo \<Rightarrow> string option"
  deleteError :: "ConnectionInfo \<Rightarrow> string option"
  now :: int

text \<open>
  \<open>String.prototype.toUpperCase\<close> on the ASCII letters; every other character stays.
\<close>

definition toUpperCaseChar :: "char \<Rightarrow> char" where
  "toUpperCaseChar c =
     (case map_of (zip ''abcdefghijklmnopqrstuvwxyz'' ''ABCDEFGHIJKLMNOPQRSTUVWXYZ'') c of
        Some u \<Rightarrow> u
      | None \<Rightarrow> c)"

definition toUpperCase :: "string \<Rightarrow> string" where
  "toUpperCase str = map toUpperCaseChar str"

text \<open>
  \<open>isOIDCAuth\<close>. \<open>get('authMechanism') || ''\<close> turns null (and the empty string) into
  the empty string. \<open>Inl\<close> when the constructor throws.
\<close>

definition isOIDCAuth :: "Env \<Rightarrow> string \<Rightarrow> string + bool" where
  "isOIDCAuth env cs =
     (case parseConnectionString env cs of
        Inl msg \<Rightarrow> Inl msg
      | Inr searchParamsGet \<Rightarrow>
          let authMechanismString =
                toUpperCase (case searchParamsGet ''authMechanism'' of
                               None \<Rightarrow> []
                             | Some v \<Rightarrow> v)
          in Inr (authMechanismString = ''MONGODB-OIDC''))"

text \<open>\<open>ensureWellFormedConnectionString\<close>: throws what the constructor throws.\<close>

definition ensureWellFormedConnectionString :: "Env \<Rightarrow> string \<Rightarrow> string option" where
  "ensureWellFormedConnectionString env cs =
     (case parseConnectionString env cs of Inl msg \<Rightarrow> Some msg | Inr _ \<Rightarrow> None)"

subsection \<open>Recent connections\<close>

text \<open>
  \<open>Array.prototype.sort\<close> with a comparator: a stable sort, an element \<open>a\<close> staying
  before \<open>b\<close> unless the comparator is positive on them. Each element is inserted, from
  the right, before the first one it does not have to follow.
\<close>

fun insertSorted :: "('a \<Rightarrow> 'a \<Rightarrow> int) \<Rightarrow> 'a \<Rightarrow> 'a list \<Rightarrow> 'a list" where
  "insertSorted cmp x [] = [x]"
| "insertSorted cmp x (y # ys) =
     (if cmp x y \<le> 0 then x # y # ys else y # insertSorted cmp x ys)"

definition sortWith :: "('a \<Rightarrow> 'a \<Rightarrow> int) \<Rightarrow> 'a list \<Rightarrow> 'a list" where
  "sortWith cmp xs = foldr (insertSorted cmp) xs []"

text \<open>\<open>info.lastUsed?.getTime() ?? 0\<close>\<close>

definition lastUsedTime :: "ConnectionInfo \<Rightarrow> int" where
  "lastUsedTime info = (case lastUsed info of None \<Rightarrow> 0 | Some t \<Rightarrow> t)"

definition recentConnections :: "ConnectionInfo list \<Rightarrow> ConnectionInfo list" where
  "recentConnections conns =
     sortWith (\<lambda>a b. lastUsedTime b - lastUsedTime a)
       (filter (\<lambda>connectionInfo. favorite connectionInfo = None) conns)"

definition MAX_RECENT_CONNECTIONS_LENGTH :: nat where
  "MAX_RECENT_CONNECTIONS_LENGTH = 10"

subsection \<open>Connection storage\<close>

text \<open>
  Modelled from the spec: the connection storage (\<open>ConnectionStorage\<close> of
  \<open>mongodb-data-service\<close>, not among these files), a store of profiles by id:
  \<open>load(id)\<close> gives the profile of that id or nothing, \<open>save(profile)\<close> replaces the
  profile of its id, \<open>delete(profile)\<close> removes the profile of its id; each call may
  fail, and then changes nothing. \<open>requests\<close> records every call made to the storage,
  in order, and \<open>toasts\<close> every toast opened.
\<close>

datatype StorageRequest = Load string | Save ConnectionInfo | Delete ConnectionInfo

record World =
  storage :: "ConnectionInfo list"
  requests :: "StorageRequest list"
  toasts :: "string list"

definition stored :: "ConnectionInfo list \<Rightarrow> string \<Rightarrow> ConnectionInfo option" where
  "stored profiles i = find (\<lambda>p. id' p = i) profiles"

definition without :: "ConnectionInfo list \<Rightarrow> string \<Rightarrow> ConnectionInfo list" where
  "without profiles i = filter (\<lambda>p. id' p \<noteq> i) profiles"

definition storageLoad ::
  "Env \<Rightarrow> World \<Rightarrow> string \<Rightarrow> World \<times> (string + ConnectionInfo option)" where
  "storageLoad env w i =
     (let w' = w\<lparr> requests := requests w @ [Load i] \<rparr>
      in case loadError env i of
           Some msg \<Rightarrow> (w', Inl msg)
         | None \<Rightarrow> (w', Inr (stored (storage w) i)))"

definition storageSave :: "Env \<Rightarrow> World \<Rightarrow> ConnectionInfo \<Rightarrow> World \<times> string option" where
  "storageSave env w info =
     (let w' = w\<lparr> requests := requests w @ [Save info] \<rparr>
      in case saveError env info of
           Some msg \<Rightarrow> (w', Some msg)
         | None \<Rightarrow> (w'\<lparr> storage := without (storage w') (id' info) @ [info] \<rparr>, None))"

definition storageDelete :: "Env \<Rightarrow> World \<Rightarrow> ConnectionInfo \<Rightarrow> World \<times> string option" where
  "storageDelete env w info =
     (let w' = w\<lparr> requests := requests w @ [Delete info] \<rparr>
      in case deleteError env info of
           Some msg \<Rightarrow> (w', Some msg)
         | None \<Rightarrow> (w'\<lparr> storage := without (storage w') (id' info) \<rparr>, None))"

text \<open>The requests made between two worlds, a call's first and last.\<close>

definition issued :: "World \<Rightarrow> World \<Rightarrow> StorageRequest list" where
  "issued w w' = drop (length (requests w)) (requests w')"


fun isDelete :: "StorageRequest \<Rightarrow> bool" where
  "isDelete (Delete p) = True"
| "isDelete _ = False"

text \<open>
  \<open>saveConnectionInfo\<close>: the promise it returns is never rejected; both faults are
  caught, a toast is opened and the promise resolves to false.
\<close>

definition saveConnectionInfo :: "Env \<Rightarrow> World \<Rightarrow> ConnectionInfo \<Rightarrow> World \<times> bool" where
  "saveConnectionInfo env w connectionInfo =
     (case ensureWellFormedConnectionString env
             (connectionString (connectionOptions connectionInfo)) of
        Some msg \<Rightarrow>
          (w\<lparr> toasts := toasts w @
                 [''An error occurred while saving the connection. '' @ msg] \<rparr>, False)
      | None \<Rightarrow>
          (case storageSave env w connectionInfo of
             (w', Some msg) \<Rightarrow>
               (w'\<lparr> toasts := toasts w' @
                       [''An error occurred while saving the connection. '' @ msg] \<rparr>, False)
           | (w', None) \<Rightarrow> (w', True)))"

subsection \<open>The controller\<close>

text \<open>
  What \<open>useConnections\<close> holds: the reducer's state, the property \<open>isConnected\<close> and
  the ref \<open>connectingConnectionAttempt\<close>. Three fields record what happened:
  \<open>attemptsCreated\<close> counts the calls of \<open>createConnectionAttempt\<close>, \<open>dispatched\<close>
  lists the actions dispatched, and \<open>connecting\<close> lists the attempts whose \<open>connect\<close>
  was called and has not returned yet.
\<close>

record Controller =
  reducerState :: State
  isConnected :: bool
  connectingConnectionAttempt :: "ConnectionAttempt option"
  attemptsCreated :: nat
  dispatched :: "Action list"
  connecting :: "ConnectionAttempt list"

definition dispatch :: "Controller \<Rightarrow> Action \<Rightarrow> Controller" where
  "dispatch c action =
     c\<lparr> reducerState := connectionsReducer (reducerState c) action,
        dispatched := dispatched c @ [action] \<rparr>"

definition initialController :: "string \<Rightarrow> bool \<Rightarrow> Controller" where
  "initialController uuid connected =
     \<lparr> reducerState = defaultConnectionsState uuid,
       isConnected = connected,
       connectingConnectionAttempt = None,
       attemptsCreated = 0,
       dispatched = [],
       connecting = [] \<rparr>"

definition createConnectionAttempt :: "Controller \<Rightarrow> ConnectionAttempt \<times> Controller" where
  "createConnectionAttempt c =
     (Attempt (Suc (attemptsCreated c)), c\<lparr> attemptsCreated := Suc (attemptsCreated c) \<rparr>)"

text \<open>
  \<open>connect\<close> is an async function: it runs until it returns or reaches an await, and
  is resumed with the awaited result. A call is modelled by the pieces between its
  awaits. \<open>Suspended\<close> is where a call stands when it gives control back, with the
  locals it keeps: \<open>newConnectionAttempt\<close>, \<open>connectionInfo\<close> and
  \<open>shouldSaveConnectionInfo\<close>. The guard reads \<open>connectionAttempt\<close> of the reducer's
  current state: the closure of the latest render.
\<close>

datatype ConnectArg = Profile ConnectionInfo | Supplier

datatype Suspended =
    Returned
  | AwaitAutoConnectInfo ConnectionAttempt
  | AwaitConnect ConnectionAttempt ConnectionInfo bool

definition hint :: string where
  "hint = ''. Go to the browser to complete authentication.''"

definition connectingText :: "Env \<Rightarrow> ConnectionInfo \<Rightarrow> bool \<Rightarrow> string" where
  "connectingText env connectionInfo isOIDCConnectionAttempt =
     ''Connecting to '' @ getConnectionTitle env connectionInfo @
       (if isOIDCConnectionAttempt then hint else [])"

text \<open>The catch block of \<open>connect\<close>.\<close>

definition connectCatch :: "Controller \<Rightarrow> string \<Rightarrow> Controller" where
  "connectCatch c msg =
     dispatch (c\<lparr> connectingConnectionAttempt := None \<rparr>) (ConnectionAttemptErrored msg)"

text \<open>
  From \<open>isOIDCAuth\<close> to \<open>await newConnectionAttempt.connect(...)\<close>, the part both
  kinds of argument share.
\<close>

definition connectAttempt ::
  "Env \<Rightarrow> Controller \<Rightarrow> ConnectionAttempt \<Rightarrow> ConnectionInfo \<Rightarrow> bool \<Rightarrow>
     Controller \<times> Suspended" where
  "connectAttempt env c newConnectionAttempt connectionInfo shouldSaveConnectionInfo =
     (case isOIDCAuth env (connectionString (connectionOptions connectionInfo)) of
        Inl msg \<Rightarrow> (connectCatch c msg, Returned)
      | Inr isOIDCConnectionAttempt \<Rightarrow>
          let c' = dispatch c
                     (AttemptConnect newConnectionAttempt
                        (connectingText env connectionInfo isOIDCConnectionAttempt))
          in (c'\<lparr> connecting := connecting c' @ [newConnectionAttempt] \<rparr>,
              AwaitConnect newConnectionAttempt connectionInfo shouldSaveConnectionInfo))"

text \<open>A call of \<open>connect\<close>, up to its first await.\<close>

definition connect :: "Env \<Rightarrow> Controller \<Rightarrow> ConnectArg \<Rightarrow> Controller \<times> Suspended" where
  "connect env c getAutoConnectInfo =
     (if connectionAttempt (reducerState c) \<noteq> None \<or> isConnected c then (c, Returned)
      else
        let (newConnectionAttempt, c1) = createConnectionAttempt c;
            c2 = c1\<lparr> connectingConnectionAttempt := Some newConnectionAttempt \<rparr>
        in case getAutoConnectInfo of
             Supplier \<Rightarrow> (c2, AwaitAutoConnectInfo newConnectionAttempt)
           | Profile connectionInfo \<Rightarrow>
               connectAttempt env c2 newConnectionAttempt connectionInfo True)"

text \<open>
  The call resumes after \<open>await getAutoConnectInfo()\<close> with what the supplier gave:
  \<open>Inl\<close> when it rejected, \<open>Inr None\<close> for undefined.
\<close>

definition resumeAutoConnectInfo ::
  "Env \<Rightarrow> Controller \<Rightarrow> ConnectionAttempt \<Rightarrow> string + ConnectionInfo option \<Rightarrow>
     Controller \<times> Suspended" where
  "resumeAutoConnectInfo env c newConnectionAttempt supplied =
     (case supplied of
        Inl msg \<Rightarrow> (connectCatch c msg, Returned)
      | Inr None \<Rightarrow> (c\<lparr> connectingConnectionAttempt := None \<rparr>, Returned)
      | Inr (Some connectionInfo) \<Rightarrow>
          connectAttempt env (dispatch c (SetActiveConnection connectionInfo))
            newConnectionAttempt connectionInfo False)"

text \<open>
  The call resumes after \<open>await newConnectionAttempt.connect(...)\<close>: \<open>Inl\<close> when it
  rejected, \<open>Inr connected\<close> with \<open>connected\<close> false for a cancelled attempt (no data
  service); \<open>closed\<close> is \<open>newConnectionAttempt.isClosed()\<close>. The result holds the
  arguments \<open>onConnectSuccess\<close> is started with, when it is.
\<close>

definition resumeConnect ::
  "Controller \<Rightarrow> ConnectionAttempt \<Rightarrow> ConnectionInfo \<Rightarrow> bool \<Rightarrow> string + bool \<Rightarrow> bool \<Rightarrow>
     Controller \<times> (ConnectionInfo \<times> bool) option" where
  "resumeConnect c newConnectionAttempt connectionInfo shouldSaveConnectionInfo result closed =
     (let c0 = c\<lparr> connecting := removeAll newConnectionAttempt (connecting c) \<rparr>
      in case result of
           Inl msg \<Rightarrow> (connectCatch c0 msg, None)
         | Inr connected \<Rightarrow>
             let c1 = c0\<lparr> connectingConnectionAttempt := None \<rparr>
             in if \<not> connected \<or> closed then (c1, None)
                else (dispatch c1 ConnectionAttemptSucceeded,
                      Some (connectionInfo, shouldSaveConnectionInfo)))"

text \<open>
  \<open>onConnectSuccess\<close>, with the controller state of the render that made the callback
  (it reads \<open>recentConnections\<close>). Whatever is thrown inside is caught and only logged.
\<close>

definition onConnectSuccess ::
  "Env \<Rightarrow> State \<Rightarrow> World \<Rightarrow> ConnectionInfo \<Rightarrow> bool \<Rightarrow> World" where
  "onConnectSuccess env s w connectionInfo shouldSaveConnectionInfo =
     (case onConnectedError env of
        Some msg \<Rightarrow> w
      | None \<Rightarrow>
          if \<not> shouldSaveConnectionInfo then w
          else
            (case storageLoad env w (id' connectionInfo) of
               (w1, Inl msg) \<Rightarrow> w1
             | (w1, Inr loaded) \<Rightarrow>
                 let connectionInfoToBeSaved =
                       (case loaded of Some p \<Rightarrow> p | None \<Rightarrow> connectionInfo);
                     (w2, saved) =
                       saveConnectionInfo env w1
                         (connectionInfoToBeSaved\<lparr> lastUsed := Some (now env) \<rparr>)
                 in if favorite connectionInfoToBeSaved = None \<and>
                       lastUsed connectionInfoToBeSaved = None \<and>
                       length (recentConnections (connections s)) \<ge>
                         MAX_RECENT_CONNECTIONS_LENGTH
                    then fst (storageDelete env w2
                                (recentConnections (connections s)
                                   ! (length (recentConnections (connections s)) - 1)))
                    else w2))"

text \<open>
  \<open>duplicateConnection\<close>, with the fresh \<open>uuidv4()\<close>. The promise of
  \<open>saveConnectionInfo\<close> always resolves, so of the two handlers given to \<open>then\<close> the
  first one runs, whatever the boolean it resolves to.
\<close>

definition duplicateConnection ::
  "Env \<Rightarrow> Controller \<Rightarrow> World \<Rightarrow> string \<Rightarrow> ConnectionInfo \<Rightarrow> Controller \<times> World" where
  "duplicateConnection env c w uuid connectionInfo =
     (let duplicate0 = connectionInfo\<lparr> id' := uuid \<rparr>;
          duplicate =
            (case favorite duplicate0 of
               Some fav \<Rightarrow>
                 if name fav \<noteq> []
                 then duplicate0\<lparr> favorite := Some (fav\<lparr> name := name fav @ '' (copy)'' \<rparr>) \<rparr>
                 else duplicate0
             | None \<Rightarrow> duplicate0);
          (w', saved) = saveConnectionInfo env w duplicate
      in (dispatch c
            (SetConnectionsAndSelect (connections (reducerState c) @ [duplicate]) duplicate),
          w'))"

subsection \<open>Notions the properties are stated with\<close>

text \<open>The actions dispatched between two controllers, a call's first and last.\<close>

definition newlyDispatched :: "Controller \<Rightarrow> Controller \<Rightarrow> Action list" where
  "newlyDispatched c c' = drop (length (dispatched c)) (dispatched c')"



text \<open>
  The profile \<open>onConnectSuccess\<close> saves: the one stored under the id, the incoming one
  when there is none; and whether it then deletes the last recent connection.
\<close>

definition connectionInfoToBeSaved :: "World \<Rightarrow> ConnectionInfo \<Rightarrow> ConnectionInfo" where
  "connectionInfoToBeSaved w connectionInfo =
     (case stored (storage w) (id' connectionInfo) of
        Some p \<Rightarrow> p
      | None \<Rightarrow> connectionInfo)"

definition evicts :: "State \<Rightarrow> World \<Rightarrow> ConnectionInfo \<Rightarrow> bool" where
  "evicts s w connectionInfo =
     (favorite (connectionInfoToBeSaved w connectionInfo) = None \<and>
      lastUsed (connectionInfoToBeSaved w connectionInfo) = None \<and>
      MAX_RECENT_CONNECTIONS_LENGTH \<le> length (recentConnections (connections s)))"

subsection \<open>Sample values\<close>

text \<open>
  Profiles and an environment to instantiate the properties with: a parser that accepts
  two connection strings, the title of a profile being its favorite name or else its
  connection string, and a storage without faults.
\<close>

definition recentProfile :: "string \<Rightarrow> int option \<Rightarrow> ConnectionInfo" where
  "recentProfile i t =
     \<lparr> id' = i,
       connectionOptions = \<lparr> connectionString = ''mongodb://localhost:27017'' \<rparr>,
       favorite = None,
       lastUsed = t \<rparr>"

definition favoriteProfile :: "string \<Rightarrow> string \<Rightarrow> ConnectionInfo" where
  "favoriteProfile i n =
     \<lparr> id' = i,
       connectionOptions = \<lparr> connectionString = ''mongodb://localhost:27017'' \<rparr>,
       favorite = Some \<lparr> name = n, color = None \<rparr>,
       lastUsed = None \<rparr>"


definition sampleEnv :: Env where
  "sampleEnv =
     \<lparr> parseConnectionString =
         (\<lambda>cs. if cs = ''mongodb://localhost:27017'' then Inr (\<lambda>key. None)
               else if cs = ''mongodb://localhost:27017/?authMechanism=mongodb-oidc''
               then Inr (\<lambda>key. if key = ''authMechanism'' then Some ''mongodb-oidc''
                                else None)
               else Inl ''Invalid connection string''),
       getConnectionTitle =
         (\<lambda>info. case favorite info of
                    Some fav \<Rightarrow> name fav
                  | None \<Rightarrow> connectionString (connectionOptions info)),
       onConnectedError = None,
       loadError = (\<lambda>i. None),
       saveError = (\<lambda>info. None),
       deleteError = (\<lambda>info. None),
       now = 1000 \<rparr>"

text \<open>The same environment with a storage whose \<open>save\<close> fails.\<close>

definition failingSaveEnv :: Env where
  "failingSaveEnv = sampleEnv\<lparr> saveError := (\<lambda>info. Some ''EACCES: permission denied'') \<rparr>"

definition emptyWorld :: World where
  "emptyWorld = \<lparr> storage = [], requests = [], toasts = [] \<rparr>"

definition tenRecents :: "ConnectionInfo list" where
  "tenRecents =
     [recentProfile ''r1'' (Some 110), recentProfile ''r2'' (Some 120),
      recentProfile ''r3'' (Some 30), recentProfile ''r4'' (Some 140),
      recentProfile ''r5'' (Some 150), recentProfile ''r6'' (Some 160),
      recentProfile ''r7'' (Some 170), recentProfile ''r8'' (Some 180),
      recentProfile ''r9'' (Some 190), recentProfile ''r10'' (Some 200)]"

section \<open>Sign-in attempt controller\<close>

subsection \<open>The store and its reducer\<close>

datatype SignInStateName =
  initial | restoring | unauthenticated | in_progress | success | error' | canceled

record AtlasSignInState =
  state :: SignInStateName
  error :: "string option"
  isModalOpen :: bool
  currentAttemptId :: "nat option"

text \<open>
  The members of \<open>AtlasSignInActions\<close>, with what their actions carry; \<open>Other\<close>
  stands for any action of another type, which the reducer's last line returns the
  state for.
\<close>

datatype AtlasSignInAction =
    OpenSignInModal
  | CloseSignInModal
  | RestoringStart
  | RestoringFailed
  | RestoringSuccess
  | AttemptStart nat
  | AttemptEnd nat
  | Start
  | Success
  | Error string
  | Cancel
  | TokenRefreshFailed
  | SignedOut
  | Other

definition INITIAL_STATE :: AtlasSignInState where
  "INITIAL_STATE =
     \<lparr> state = initial, error = None, isModalOpen = False, currentAttemptId = None \<rparr>"

fun reducer :: "AtlasSignInState \<Rightarrow> AtlasSignInAction \<Rightarrow> AtlasSignInState" where
  "reducer st RestoringStart = st\<lparr> state := restoring \<rparr>"
| "reducer st RestoringSuccess =
     (if state st \<noteq> restoring then st else st\<lparr> state := success, error := None \<rparr>)"
| "reducer st RestoringFailed =
     (if state st \<noteq> restoring then st else st\<lparr> state := unauthenticated \<rparr>)"
| "reducer st (AttemptStart n) = st\<lparr> currentAttemptId := Some n \<rparr>"
| "reducer st (AttemptEnd n) = st\<lparr> currentAttemptId := None \<rparr>"
| "reducer st Start = st\<lparr> state := in_progress \<rparr>"
| "reducer st Success = st\<lparr> isModalOpen := False, state := success, error := None \<rparr>"
| "reducer st (Error msg) = st\<lparr> isModalOpen := False, state := error', error := Some msg \<rparr>"
| "reducer st Cancel = INITIAL_STATE\<lparr> state := canceled \<rparr>"
| "reducer st OpenSignInModal = st\<lparr> isModalOpen := True \<rparr>"
| "reducer st CloseSignInModal = st\<lparr> isModalOpen := False \<rparr>"
| "reducer st TokenRefreshFailed =
     (if state st \<noteq> success then st else INITIAL_STATE\<lparr> state := error' \<rparr>)"
| "reducer st SignedOut = INITIAL_STATE"
| "reducer st Other = st"

subsection \<open>Attempts\<close>

text \<open>
  What a promise is rejected with, and what \<open>signal.reason\<close> holds: the \<open>AbortError\<close>
  that \<open>abort()\<close> without argument sets, or a value given by a caller. \<open>None\<close> is
  undefined.
\<close>

datatype Reason = AbortError | Given string

text \<open>
  An \<open>AbortController\<close>: its signal is aborted once a reason is set, and \<open>abort()\<close>
  on an aborted one changes nothing.
\<close>

record AbortController =
  signalReason :: "Reason option"
  signalAborted :: bool

definition abort :: "AbortController \<Rightarrow> AbortController" where
  "abort ctl =
     (if signalAborted ctl then ctl
      else ctl\<lparr> signalReason := Some AbortError, signalAborted := True \<rparr>)"

text \<open>
  The promise of an attempt with its \<open>resolve\<close> and \<open>reject\<close>: a promise settles
  once, later calls change nothing.
\<close>

datatype PromiseState = Pending | Resolved | Rejected "Reason option"

record AttemptState =
  attempt_id :: nat
  controller :: AbortController
  promise :: PromiseState

definition resolve :: "AttemptState \<Rightarrow> AttemptState" where
  "resolve attempt =
     (if promise attempt = Pending then attempt\<lparr> promise := Resolved \<rparr> else attempt)"

definition reject :: "AttemptState \<Rightarrow> Reason option \<Rightarrow> AttemptState" where
  "reject attempt r =
     (if promise attempt = Pending then attempt\<lparr> promise := Rejected r \<rparr> else attempt)"

text \<open>
  What a callback given to \<open>setImmediate\<close> or to an abort listener does when it runs.
\<close>

datatype Callback =
    DispatchOpenSignInModal
  | DispatchSignIn
  | DispatchCloseSignInModal
  | DispatchCancelSignIn

text \<open>
  The module's state: the store, the counter \<open>attemptId\<close>, the map
  \<open>AttemptStateMap\<close>, the callbacks handed to \<open>setImmediate\<close> and to the caller's
  abort signal, and the events emitted on the service.
\<close>

record SignIn =
  store :: AtlasSignInState
  attemptId :: nat
  AttemptStateMap :: "nat \<rightharpoonup> AttemptState"
  immediates :: "Callback list"
  abortListeners :: "Callback list"
  emitted :: "string list"

definition initialSignIn :: SignIn where
  "initialSignIn =
     \<lparr> store = INITIAL_STATE, attemptId = 0, AttemptStateMap = Map.empty,
       immediates = [], abortListeners = [], emitted = [] \<rparr>"

definition dispatchSignIn :: "SignIn \<Rightarrow> AtlasSignInAction \<Rightarrow> SignIn" where
  "dispatchSignIn sys action = sys\<lparr> store := reducer (store sys) action \<rparr>"

text \<open>JavaScript's truth of a \<open>number | null\<close>: null and 0 are false.\<close>

definition truthy :: "nat option \<Rightarrow> bool" where
  "truthy n = (case n of None \<Rightarrow> False | Some k \<Rightarrow> k \<noteq> 0)"

text \<open>
  \<open>getAttempt\<close>: without an id (or with a false one) a new attempt is registered under
  the next number; the attempt of the id is returned, and a missing one throws.
\<close>

definition getAttempt :: "nat option \<Rightarrow> SignIn \<Rightarrow> string + (AttemptState \<times> SignIn)" where
  "getAttempt given sys =
     (let (n, sys1) =
            (if \<not> truthy given
             then let n = attemptId sys + 1
                  in (n, sys\<lparr> attemptId := n,
                              AttemptStateMap := (AttemptStateMap sys)
                                (n \<mapsto> \<lparr> attempt_id = n,
                                       controller =
                                         \<lparr> signalReason = None, signalAborted = False \<rparr>,
                                       promise = Pending \<rparr>) \<rparr>)
             else (case given of Some k \<Rightarrow> (k, sys) | None \<Rightarrow> (0, sys)))
      in case AttemptStateMap sys1 n of
           None \<Rightarrow> Inl ''Trying to get the state for a non-existing sign in attempt''
         | Some attemptState \<Rightarrow> Inr (attemptState, sys1))"

subsection \<open>Action creators\<close>

text \<open>
  A thunk that throws gives \<open>Inl\<close> with the message. \<open>startAttempt\<close> registers what
  runs when the attempt's promise settles (see \<open>attemptSettled\<close>) and hands \<open>fn\<close> to
  \<open>setImmediate\<close>.
\<close>

definition startAttempt :: "Callback \<Rightarrow> SignIn \<Rightarrow> string + (AttemptState \<times> SignIn)" where
  "startAttempt fn sys =
     (if truthy (currentAttemptId (store sys))
      then Inl ''Can't start sign in with prompt while another sign in attempt is in progress''
      else
        (case getAttempt None sys of
           Inl msg \<Rightarrow> Inl msg
         | Inr (attempt, sys1) \<Rightarrow>
             let sys2 = dispatchSignIn sys1 (AttemptStart (attempt_id attempt))
             in Inr (attempt, sys2\<lparr> immediates := immediates sys2 @ [fn] \<rparr>)))"

text \<open>The callback of \<open>attempt.promise.finally\<close>, run once the promise has settled.\<close>

definition attemptSettled :: "nat \<Rightarrow> SignIn \<Rightarrow> SignIn" where
  "attemptSettled n sys = dispatchSignIn sys (AttemptEnd n)"

text \<open>
  What an async thunk hands its caller: a promise already fulfilled, a promise rejected
  with what was thrown before the first await, or the promise of an attempt.
\<close>

datatype ReturnedPromise = Fulfilled | RejectedWith string | PromiseOfAttempt nat

text \<open>
  \<open>signInWithModalPrompt\<close> and \<open>signInWithoutPrompt\<close>; \<open>signal\<close> tells whether the
  caller gave an abort signal. Nothing catches what \<open>startAttempt\<close> throws: it leaves
  the async function as the rejection of the promise returned.
\<close>

definition signInWithModalPrompt :: "bool \<Rightarrow> SignIn \<Rightarrow> SignIn \<times> ReturnedPromise" where
  "signInWithModalPrompt signal sys =
     (if state (store sys) = success then (sys, Fulfilled)
      else
        (case startAttempt DispatchOpenSignInModal sys of
           Inl msg \<Rightarrow> (sys, RejectedWith msg)
         | Inr (attempt, sys1) \<Rightarrow>
             ((if signal
               then sys1\<lparr> abortListeners := abortListeners sys1 @ [DispatchCloseSignInModal] \<rparr>
               else sys1),
              PromiseOfAttempt (attempt_id attempt))))"

definition signInWithoutPrompt :: "bool \<Rightarrow> SignIn \<Rightarrow> SignIn \<times> ReturnedPromise" where
  "signInWithoutPrompt signal sys =
     (if state (store sys) = success then (sys, Fulfilled)
      else
        (case startAttempt DispatchSignIn sys of
           Inl msg \<Rightarrow> (sys, RejectedWith msg)
         | Inr (attempt, sys1) \<Rightarrow>
             ((if signal
               then sys1\<lparr> abortListeners := abortListeners sys1 @ [DispatchCancelSignIn] \<rparr>
               else sys1),
              PromiseOfAttempt (attempt_id attempt))))"

text \<open>
  \<open>cancelSignIn(reason)\<close>. The attempt is an object shared with the map, so what
  \<open>abort\<close> and \<open>reject\<close> do to it is written back under its id.
\<close>

definition cancelSignIn :: "Reason option \<Rightarrow> SignIn \<Rightarrow> string + SignIn" where
  "cancelSignIn reason sys =
     (if currentAttemptId (store sys) = None then Inr sys
      else
        (case getAttempt (currentAttemptId (store sys)) sys of
           Inl msg \<Rightarrow> Inl msg
         | Inr (attempt, sys1) \<Rightarrow>
             let aborted = attempt\<lparr> controller := abort (controller attempt) \<rparr>;
                 rejected =
                   reject aborted
                     (case reason of
                        Some r \<Rightarrow> Some r
                      | None \<Rightarrow> signalReason (controller aborted));
                 sys2 = sys1\<lparr> AttemptStateMap :=
                                (AttemptStateMap sys1)(attempt_id attempt \<mapsto> rejected) \<rparr>
             in Inr (dispatchSignIn sys2 Cancel)))"

definition closeSignInModal :: "Reason option \<Rightarrow> SignIn \<Rightarrow> string + SignIn" where
  "closeSignInModal reason sys =
     (case cancelSignIn reason sys of
        Inl msg \<Rightarrow> Inl msg
      | Inr sys1 \<Rightarrow> Inr (dispatchSignIn sys1 CloseSignInModal))"

definition tokenRefreshFailed :: "SignIn \<Rightarrow> SignIn" where
  "tokenRefreshFailed sys =
     (let sys1 = dispatchSignIn sys TokenRefreshFailed
      in sys1\<lparr> emitted := emitted sys1 @ [''token-refresh-failed''] \<rparr>)"

definition signedOut :: "SignIn \<Rightarrow> SignIn" where
  "signedOut sys =
     (let sys1 = dispatchSignIn sys SignedOut
      in sys1\<lparr> emitted := emitted sys1 @ [''signed-out''] \<rparr>)"

subsection \<open>Notions the properties are stated with\<close>

text \<open>
  The attempts are well registered: each attempt of the map sits under its own id, ids
  are positive and at most the counter, and the current attempt, if any, is in the map.
\<close>

definition registered :: "SignIn \<Rightarrow> bool" where
  "registered sys =
     ((\<forall>n a. AttemptStateMap sys n = Some a \<longrightarrow>
               attempt_id a = n \<and> n \<noteq> 0 \<and> n \<le> attemptId sys) \<and>
      (\<forall>n. currentAttemptId (store sys) = Some n \<longrightarrow> AttemptStateMap sys n \<noteq> None))"

subsection \<open>Sample values\<close>

text \<open>The module after one sign-in was started from the initial state and is running.\<close>

definition busySignIn :: SignIn where
  "busySignIn =
     \<lparr> store = \<lparr> state = in_progress, error = None, isModalOpen = False,
                 currentAttemptId = Some 1 \<rparr>,
       attemptId = 1,
       AttemptStateMap =
         [1 \<mapsto> \<lparr> attempt_id = 1,
                 controller = \<lparr> signalReason = None, signalAborted = False \<rparr>,
                 promise = Pending \<rparr>],
       immediates = [],
       abortListeners = [],
       emitted = [] \<rparr>"

section \<open>Properties of the connection lifecycle controller\<close>

subsection \<open>The reducer's invariant\<close>

lemma connectionsReducer_ways:
  "clearsError s (connectionsReducer s action) \<or>
   keepsAttemptAndError s (connectionsReducer s action) \<or>
   setsErrorClearsAttempt action (connectionsReducer s action)"
  by (cases action)
     (simp_all add: clearsError_def keepsAttemptAndError_def setsErrorClearsAttempt_def)

lemma connectionsReducer_preserves:
  "attemptExcludesError s \<Longrightarrow> attemptExcludesError (connectionsReducer s action)"
  by (cases action) (auto simp: attemptExcludesError_def)

lemma reduceAll_preserves:
  "attemptExcludesError s \<Longrightarrow> attemptExcludesError (reduceAll s as)"
  unfolding reduceAll_def
  by (induction as arbitrary: s) (simp_all add: connectionsReducer_preserves)

lemma default_attemptExcludesError: "attemptExcludesError (defaultConnectionsState uuid)"
  by (simp add: attemptExcludesError_def defaultConnectionsState_def)

text \<open>
  C10. In every state the reducer reaches from the default state, whatever the actions,
  a non-null \<open>connectionAttempt\<close> implies a null \<open>connectionErrorMessage\<close>; every action
  preserves this, and every action either clears the error message, or leaves both fields
  as they were, or is \<open>connection-attempt-errored\<close>, which sets the message and clears
  the attempt.
\<close>

theorem connectionsReducer_attempt_excludes_error:
  "(connectionAttempt (reduceAll (defaultConnectionsState uuid) as) \<noteq> None \<longrightarrow>
      connectionErrorMessage (reduceAll (defaultConnectionsState uuid) as) = None) \<and>
   ((connectionAttempt s \<noteq> None \<longrightarrow> connectionErrorMessage s = None) \<longrightarrow>
      (connectionAttempt (connectionsReducer s action) \<noteq> None \<longrightarrow>
         connectionErrorMessage (connectionsReducer s action) = None)) \<and>
   (clearsError s (connectionsReducer s action) \<or>
    keepsAttemptAndError s (connectionsReducer s action) \<or>
    setsErrorClearsAttempt action (connectionsReducer s action))"
proof (intro conjI)
  have "attemptExcludesError (reduceAll (defaultConnectionsState uuid) as)"
    by (rule reduceAll_preserves [OF default_attemptExcludesError])
  then show "connectionAttempt (reduceAll (defaultConnectionsState uuid) as) \<noteq> None \<longrightarrow>
      connectionErrorMessage (reduceAll (defaultConnectionsState uuid) as) = None"
    by (auto simp: attemptExcludesError_def)
next
  show "(connectionAttempt s \<noteq> None \<longrightarrow> connectionErrorMessage s = None) \<longrightarrow>
      (connectionAttempt (connectionsReducer s action) \<noteq> None \<longrightarrow>
         connectionErrorMessage (connectionsReducer s action) = None)"
    using connectionsReducer_preserves [of s action]
    by (auto simp: attemptExcludesError_def)
next
  show "clearsError s (connectionsReducer s action) \<or>
    keepsAttemptAndError s (connectionsReducer s action) \<or>
    setsErrorClearsAttempt action (connectionsReducer s action)"
    by (rule connectionsReducer_ways)
qed

theorem connectionsReducer_attempt_excludes_error_witness:
  "connectionAttempt
     (reduceAll (defaultConnectionsState ''u'')
        [ConnectionAttemptErrored ''refused'', AttemptConnect (Attempt 1) ''Connecting'']) =
     Some (Attempt 1) \<and>
   connectionErrorMessage
     (reduceAll (defaultConnectionsState ''u'')
        [ConnectionAttemptErrored ''refused'', AttemptConnect (Attempt 1) ''Connecting'']) = None \<and>
   connectionAttempt
     (connectionsReducer
        (reduceAll (defaultConnectionsState ''u'') [AttemptConnect (Attempt 1) ''Connecting''])
        (SetConnections [])) = Some (Attempt 1) \<and>
   connectionErrorMessage
     (connectionsReducer
        (reduceAll (defaultConnectionsState ''u'') [AttemptConnect (Attempt 1) ''Connecting''])
        (SetConnections [])) = None"
  using connectionsReducer_attempt_excludes_error
    [of "''u''" "[ConnectionAttemptErrored ''refused'', AttemptConnect (Attempt 1) ''Connecting'']"
        "reduceAll (defaultConnectionsState ''u'') [AttemptConnect (Attempt 1) ''Connecting'']"
        "SetConnections []"]
  by (simp add: reduceAll_def defaultConnectionsState_def)

subsection \<open>Sorting the recent connections\<close>



lemma set_insertSorted: "set (insertSorted cmp x xs) = insert x (set xs)"
  by (induction xs) auto


lemma sorted_insertSorted:
  "sorted_wrt (\<lambda>a b. f b \<le> f a) xs \<Longrightarrow>
   sorted_wrt (\<lambda>a b. f b \<le> f a) (insertSorted (\<lambda>a b. f b - f a) x xs)"
  for f :: "'a \<Rightarrow> int"
  by (induction xs) (auto simp: set_insertSorted)

lemma sorted_sortWith:
  "sorted_wrt (\<lambda>a b. f b \<le> f a) (sortWith (\<lambda>a b. f b - f a) xs)"
  for f :: "'a \<Rightarrow> int"
  unfolding sortWith_def by (induction xs) (simp_all add: sorted_insertSorted)




lemma recentConnections_sorted:
  "sorted_wrt (\<lambda>a b. lastUsedTime b \<le> lastUsedTime a) (recentConnections conns)"
  unfolding recentConnections_def by (rule sorted_sortWith)




subsection \<open>The status text of an attempt\<close>










subsection \<open>Saving after a successful connection\<close>


lemma stored_without_other: "i \<noteq> j \<Longrightarrow> stored (without profiles j) i = stored profiles i"
  unfolding stored_def without_def by (induction profiles) auto

lemma stored_without_same: "stored (without profiles i) i = None"
  unfolding stored_def without_def by (induction profiles) auto

lemma stored_append:
  "stored (profiles @ [p]) i =
     (case stored profiles i of Some q \<Rightarrow> Some q | None \<Rightarrow> if id' p = i then Some p else None)"
  unfolding stored_def by (induction profiles) auto

lemma stored_saved_other:
  "i \<noteq> j \<Longrightarrow> i \<noteq> id' p \<Longrightarrow> stored (without profiles j @ [p]) i = stored profiles i"
  by (simp add: stored_append stored_without_other split: option.splits)

lemma saveConnectionInfo_requests:
  "requests (fst (saveConnectionInfo env w p)) =
     requests w @
       (if ensureWellFormedConnectionString env (connectionString (connectionOptions p)) = None
        then [Save p] else [])"
  by (simp add: saveConnectionInfo_def storageSave_def Let_def split: option.splits)

lemma saveConnectionInfo_storage:
  "storage (fst (saveConnectionInfo env w p)) =
     (if ensureWellFormedConnectionString env (connectionString (connectionOptions p)) = None \<and>
         saveError env p = None
      then without (storage w) (id' p) @ [p] else storage w)"
  by (simp add: saveConnectionInfo_def storageSave_def Let_def split: option.splits)

lemma onConnectSuccess_steps:
  assumes "onConnectedError env = None" and "loadError env (id' info) = None"
  shows "onConnectSuccess env s w info True =
     (let w2 = fst (saveConnectionInfo env (w\<lparr> requests := requests w @ [Load (id' info)] \<rparr>)
                  ((connectionInfoToBeSaved w info)\<lparr> lastUsed := Some (now env) \<rparr>))
      in if evicts s w info
         then fst (storageDelete env w2 (last (recentConnections (connections s))))
         else w2)"
proof (cases "evicts s w info")
  case True
  then have "recentConnections (connections s) \<noteq> []"
    by (auto simp: evicts_def MAX_RECENT_CONNECTIONS_LENGTH_def)
  then have "recentConnections (connections s) ! (length (recentConnections (connections s)) - 1) =
      last (recentConnections (connections s))"
    by (simp add: last_conv_nth)
  with True assms show ?thesis
    by (simp add: onConnectSuccess_def storageLoad_def Let_def split_beta connectionInfoToBeSaved_def
          evicts_def MAX_RECENT_CONNECTIONS_LENGTH_def)
next
  case False
  with assms show ?thesis
    by (auto simp: onConnectSuccess_def storageLoad_def Let_def split_beta connectionInfoToBeSaved_def
          evicts_def MAX_RECENT_CONNECTIONS_LENGTH_def)
qed

lemma onConnectSuccess_requests:
  assumes "onConnectedError env = None" and "loadError env (id' info) = None"
  shows "issued w (onConnectSuccess env s w info True) =
     [Load (id' info)] @
       (if ensureWellFormedConnectionString env
             (connectionString (connectionOptions (connectionInfoToBeSaved w info))) = None
        then [Save ((connectionInfoToBeSaved w info)\<lparr> lastUsed := Some (now env) \<rparr>)] else []) @
       (if evicts s w info then [Delete (last (recentConnections (connections s)))] else [])"
  by (simp add: onConnectSuccess_steps [OF assms] issued_def Let_def
        saveConnectionInfo_requests storageDelete_def split: option.splits)


lemma onConnectSuccess_storage:
  assumes "onConnectedError env = None" and "loadError env (id' info) = None"
  shows "storage (onConnectSuccess env s w info True) =
     (let p = (connectionInfoToBeSaved w info)\<lparr> lastUsed := Some (now env) \<rparr>;
          st1 = (if ensureWellFormedConnectionString env
                      (connectionString (connectionOptions p)) = None \<and>
                    saveError env p = None
                 then without (storage w) (id' p) @ [p] else storage w)
      in if evicts s w info \<and> deleteError env (last (recentConnections (connections s))) = None
         then without st1 (id' (last (recentConnections (connections s))))
         else st1)"
  by (simp add: onConnectSuccess_steps [OF assms] Let_def
        saveConnectionInfo_storage storageDelete_def split: option.splits)

lemma last_least:
  fixes f :: "'a \<Rightarrow> int"
  assumes "sorted_wrt (\<lambda>a b. f b \<le> f a) xs" and "xs \<noteq> []"
  shows "\<forall>x\<in>set xs. f (last xs) \<le> f x"
  using assms by (induction xs) auto


text \<open>
  C5. Once \<open>onConnectSuccess\<close> has come to save a profile (the callback and the load
  did not fail): if the profile saved has no favorite entry and had no \<open>lastUsed\<close>, and
  there are at least \<open>MAX_RECENT_CONNECTIONS_LENGTH\<close> = 10 recent connections, then
  exactly one delete is asked of the storage, for the last recent connection, whose
  \<open>lastUsed\<close> time is the least of all recent connections; when that delete succeeds
  the storage no longer holds its id and still holds every profile of another id. In
  every other case no delete is asked and every other profile is still stored.
\<close>

theorem onConnectSuccess_evicts_oldest_recent:
  assumes "onConnectedError env = None" and "loadError env (id' info) = None"
  shows
    "MAX_RECENT_CONNECTIONS_LENGTH = 10 \<and>
     (favorite (connectionInfoToBeSaved w info) = None \<and>
      lastUsed (connectionInfoToBeSaved w info) = None \<and>
      10 \<le> length (recentConnections (connections s)) \<longrightarrow>
        filter isDelete (issued w (onConnectSuccess env s w info True)) =
          [Delete (last (recentConnections (connections s)))] \<and>
        last (recentConnections (connections s)) \<in> set (recentConnections (connections s)) \<and>
        (\<forall>r\<in>set (recentConnections (connections s)).
           lastUsedTime (last (recentConnections (connections s))) \<le> lastUsedTime r) \<and>
        (deleteError env (last (recentConnections (connections s))) = None \<longrightarrow>
           stored (storage (onConnectSuccess env s w info True))
             (id' (last (recentConnections (connections s)))) = None \<and>
           (\<forall>i. i \<noteq> id' (last (recentConnections (connections s))) \<and>
                i \<noteq> id' (connectionInfoToBeSaved w info) \<longrightarrow>
                stored (storage (onConnectSuccess env s w info True)) i =
                  stored (storage w) i))) \<and>
     (\<not> (favorite (connectionInfoToBeSaved w info) = None \<and>
         lastUsed (connectionInfoToBeSaved w info) = None \<and>
         10 \<le> length (recentConnections (connections s))) \<longrightarrow>
        filter isDelete (issued w (onConnectSuccess env s w info True)) = [] \<and>
        (\<forall>i. i \<noteq> id' (connectionInfoToBeSaved w info) \<longrightarrow>
             stored (storage (onConnectSuccess env s w info True)) i = stored (storage w) i))"
proof (intro conjI impI allI)
  show "MAX_RECENT_CONNECTIONS_LENGTH = 10"
    by (simp add: MAX_RECENT_CONNECTIONS_LENGTH_def)
next
  assume c: "favorite (connectionInfoToBeSaved w info) = None \<and>
      lastUsed (connectionInfoToBeSaved w info) = None \<and>
      10 \<le> length (recentConnections (connections s))"
  then have ev: "evicts s w info"
    by (simp add: evicts_def MAX_RECENT_CONNECTIONS_LENGTH_def)
  from c have ne: "recentConnections (connections s) \<noteq> []"
    by auto
  show "filter isDelete (issued w (onConnectSuccess env s w info True)) =
          [Delete (last (recentConnections (connections s)))]"
    using ev by (simp add: onConnectSuccess_requests [OF assms])
  show "last (recentConnections (connections s)) \<in> set (recentConnections (connections s))"
    using ne by simp
  show "\<forall>r\<in>set (recentConnections (connections s)).
           lastUsedTime (last (recentConnections (connections s))) \<le> lastUsedTime r"
    by (rule last_least [OF recentConnections_sorted ne])
  assume d: "deleteError env (last (recentConnections (connections s))) = None"
  show "stored (storage (onConnectSuccess env s w info True))
             (id' (last (recentConnections (connections s)))) = None"
    using ev d by (simp add: onConnectSuccess_storage [OF assms] Let_def stored_without_same)
  fix i
  assume "i \<noteq> id' (last (recentConnections (connections s))) \<and>
                i \<noteq> id' (connectionInfoToBeSaved w info)"
  then show "stored (storage (onConnectSuccess env s w info True)) i = stored (storage w) i"
    using ev d
    by (auto simp: onConnectSuccess_storage [OF assms] Let_def stored_without_other
          stored_saved_other)
next
  assume c: "\<not> (favorite (connectionInfoToBeSaved w info) = None \<and>
         lastUsed (connectionInfoToBeSaved w info) = None \<and>
         10 \<le> length (recentConnections (connections s)))"
  then have ev: "\<not> evicts s w info"
    by (simp add: evicts_def MAX_RECENT_CONNECTIONS_LENGTH_def)
  show "filter isDelete (issued w (onConnectSuccess env s w info True)) = []"
    using ev by (simp add: onConnectSuccess_requests [OF assms])
  fix i
  assume "i \<noteq> id' (connectionInfoToBeSaved w info)"
  then show "stored (storage (onConnectSuccess env s w info True)) i = stored (storage w) i"
    using ev
    by (auto simp: onConnectSuccess_storage [OF assms] Let_def stored_without_other
          stored_saved_other)
qed


theorem onConnectSuccess_evicts_oldest_recent_witness:
  "filter isDelete
     (issued (emptyWorld\<lparr> storage := tenRecents \<rparr>)
        (onConnectSuccess sampleEnv ((defaultConnectionsState ''u'')\<lparr> connections := tenRecents \<rparr>)
           (emptyWorld\<lparr> storage := tenRecents \<rparr>) (recentProfile ''new'' None) True)) =
     [Delete (recentProfile ''r3'' (Some 30))] \<and>
   stored
     (storage
        (onConnectSuccess sampleEnv ((defaultConnectionsState ''u'')\<lparr> connections := tenRecents \<rparr>)
           (emptyWorld\<lparr> storage := tenRecents \<rparr>) (recentProfile ''new'' None) True)) ''r3'' = None \<and>
   filter isDelete
     (issued (emptyWorld\<lparr> storage := tenRecents \<rparr>)
        (onConnectSuccess sampleEnv ((defaultConnectionsState ''u'')\<lparr> connections := tenRecents \<rparr>)
           (emptyWorld\<lparr> storage := tenRecents \<rparr>) (recentProfile ''r1'' None) True)) = []"
proof -
  have e: "onConnectedError sampleEnv = None" "loadError sampleEnv i = None"
    "deleteError sampleEnv p = None" for i p
    by (simp_all add: sampleEnv_def)
  have l: "last (recentConnections tenRecents) = recentProfile ''r3'' (Some 30)"
    by (simp add: recentConnections_def sortWith_def lastUsedTime_def tenRecents_def
          recentProfile_def)
  have n: "length (recentConnections tenRecents) = 10"
    by (simp add: recentConnections_def sortWith_def lastUsedTime_def tenRecents_def
          recentProfile_def)
  have new: "connectionInfoToBeSaved (emptyWorld\<lparr> storage := tenRecents \<rparr>)
      (recentProfile ''new'' None) = recentProfile ''new'' None"
    by (simp add: connectionInfoToBeSaved_def stored_def emptyWorld_def tenRecents_def
          recentProfile_def)
  have old: "connectionInfoToBeSaved (emptyWorld\<lparr> storage := tenRecents \<rparr>)
      (recentProfile ''r1'' None) = recentProfile ''r1'' (Some 110)"
    by (simp add: connectionInfoToBeSaved_def stored_def emptyWorld_def tenRecents_def
          recentProfile_def)
  have f: "favorite (recentProfile i t) = None" "lastUsed (recentProfile i t) = t"
    "id' (recentProfile i t) = i" for i t
    by (simp_all add: recentProfile_def)
  show ?thesis
    using onConnectSuccess_evicts_oldest_recent
        [where env = sampleEnv and info = "recentProfile ''new'' None"
           and w = "emptyWorld\<lparr> storage := tenRecents \<rparr>"
           and s = "(defaultConnectionsState ''u'')\<lparr> connections := tenRecents \<rparr>"]
      onConnectSuccess_evicts_oldest_recent
        [where env = sampleEnv and info = "recentProfile ''r1'' None"
           and w = "emptyWorld\<lparr> storage := tenRecents \<rparr>"
           and s = "(defaultConnectionsState ''u'')\<lparr> connections := tenRecents \<rparr>"]
    by (simp add: new old l n f e)
qed

subsection \<open>Duplicating a connection\<close>

lemma duplicateConnection_always_selects:
  "\<exists>d. id' d = uuid \<and>
       newlyDispatched c (fst (duplicateConnection env c w uuid info)) =
         [SetConnectionsAndSelect (connections (reducerState c) @ [d]) d]"
  by (simp add: duplicateConnection_def newlyDispatched_def dispatch_def Let_def split_beta
        split: option.splits)

text \<open>
  C7. The duplicate of a favorite named \<open>X\<close> gets the new id and the name
  \<open>X (copy)\<close>. With a storage whose \<open>save\<close> fails, \<open>saveConnectionInfo\<close> catches
  the fault, opens the error toast and resolves to false; the first handler of \<open>then\<close>
  runs all the same: the duplicate, which the storage does not hold, is appended to the
  connections and becomes the active one.
\<close>

theorem duplicateConnection_selected_though_save_failed:
  "snd (saveConnectionInfo failingSaveEnv emptyWorld (favoriteProfile ''p2'' ''X (copy)'')) = False \<and>
   connections
     (reducerState
        (fst (duplicateConnection failingSaveEnv (initialController ''u'' False) emptyWorld
                ''p2'' (favoriteProfile ''p1'' ''X'')))) =
     [favoriteProfile ''p2'' ''X (copy)''] \<and>
   activeConnectionId
     (reducerState
        (fst (duplicateConnection failingSaveEnv (initialController ''u'' False) emptyWorld
                ''p2'' (favoriteProfile ''p1'' ''X'')))) = Some ''p2'' \<and>
   activeConnectionInfo
     (reducerState
        (fst (duplicateConnection failingSaveEnv (initialController ''u'' False) emptyWorld
                ''p2'' (favoriteProfile ''p1'' ''X'')))) = favoriteProfile ''p2'' ''X (copy)'' \<and>
   storage
     (snd (duplicateConnection failingSaveEnv (initialController ''u'' False) emptyWorld
             ''p2'' (favoriteProfile ''p1'' ''X''))) = [] \<and>
   toasts
     (snd (duplicateConnection failingSaveEnv (initialController ''u'' False) emptyWorld
             ''p2'' (favoriteProfile ''p1'' ''X''))) =
     [''An error occurred while saving the connection. EACCES: permission denied'']"
  by (simp add: duplicateConnection_def saveConnectionInfo_def storageSave_def
        ensureWellFormedConnectionString_def failingSaveEnv_def sampleEnv_def emptyWorld_def
        favoriteProfile_def initialController_def defaultConnectionsState_def dispatch_def
        Let_def)

subsection \<open>Calls of connect\<close>

lemma connect_returns_when_busy:
  "connectionAttempt (reducerState c) \<noteq> None \<or> isConnected c \<Longrightarrow>
   connect env c getAutoConnectInfo = (c, Returned)"
  by (simp add: connect_def)

lemma connect_creates_one_attempt:
  "connectionAttempt (reducerState c) = None \<Longrightarrow> \<not> isConnected c \<Longrightarrow>
   attemptsCreated (fst (connect env c getAutoConnectInfo)) = Suc (attemptsCreated c)"
  by (simp add: connect_def createConnectionAttempt_def connectAttempt_def connectCatch_def
        dispatch_def Let_def split: ConnectArg.splits sum.splits)

lemma connectAttempt_sets_attempt:
  "connectAttempt env c a info save = (c', AwaitConnect a' info' save') \<Longrightarrow>
   connectionAttempt (reducerState c') = Some a"
  by (auto simp: connectAttempt_def connectCatch_def dispatch_def Let_def split: sum.splits)

lemma connect_profile_then_returns:
  assumes "connect env c (Profile info) = (c', AwaitConnect a info' save)"
  shows "connect env c' getAutoConnectInfo = (c', Returned)"
proof -
  from assms have "connectionAttempt (reducerState c') \<noteq> None"
    by (auto simp: connect_def createConnectionAttempt_def Let_def
          dest!: connectAttempt_sets_attempt split: if_splits)
  then show ?thesis
    by (simp add: connect_returns_when_busy)
qed

text \<open>
  C1. A call of \<open>connect\<close> made while the state holds an attempt, or while connected,
  returns the controller as it was (\<open>connect_returns_when_busy\<close>), and so does any
  call that follows a call with a profile which has dispatched its attempt
  (\<open>connect_profile_then_returns\<close>). But the state holds
  the attempt only from the \<open>attempt-connect\<close> action on, and a call with a supplier
  awaits the supplier before it dispatches that action. So: the call made at start with
  the supplier creates attempt 1 and waits; a call made meanwhile with a profile passes
  the guard, creates attempt 2 and starts connecting with it; the supplier then gives
  its profile, and the first call starts connecting with attempt 1. Two attempts are
  connecting at once.
\<close>

theorem connect_interleaved_two_attempts:
  "(let c0 = initialController ''u'' False;
        (c1, k1) = connect sampleEnv c0 Supplier;
        (c2, k2) = connect sampleEnv c1 (Profile (recentProfile ''a'' None));
        (c3, k3) = resumeAutoConnectInfo sampleEnv c2 (Attempt 1)
                     (Inr (Some (recentProfile ''b'' None)))
    in k1 = AwaitAutoConnectInfo (Attempt 1) \<and>
       connectionAttempt (reducerState c1) = None \<and>
       k2 = AwaitConnect (Attempt 2) (recentProfile ''a'' None) True \<and>
       connectionAttempt (reducerState c2) = Some (Attempt 2) \<and>
       k3 = AwaitConnect (Attempt 1) (recentProfile ''b'' None) False \<and>
       connectionAttempt (reducerState c3) = Some (Attempt 1) \<and>
       attemptsCreated c3 = 2 \<and>
       connecting c3 = [Attempt 2, Attempt 1] \<and>
       dispatched c3 =
         [AttemptConnect (Attempt 2) ''Connecting to mongodb://localhost:27017'',
          SetActiveConnection (recentProfile ''b'' None),
          AttemptConnect (Attempt 1) ''Connecting to mongodb://localhost:27017''])"
  by (simp add: connect_def resumeAutoConnectInfo_def createConnectionAttempt_def
        connectAttempt_def isOIDCAuth_def toUpperCase_def
        connectingText_def dispatch_def initialController_def defaultConnectionsState_def
        sampleEnv_def recentProfile_def Let_def numeral_2_eq_2)

theorem connect_interleaved_two_attempts_witness:
  "connecting
     (fst (resumeAutoConnectInfo sampleEnv
             (fst (connect sampleEnv (fst (connect sampleEnv (initialController ''u'' False) Supplier))
                     (Profile (recentProfile ''a'' None))))
             (Attempt 1) (Inr (Some (recentProfile ''b'' None))))) =
     [Attempt 2, Attempt 1]"
  using connect_interleaved_two_attempts
  by (simp add: Let_def split_beta)

section \<open>Properties of the sign-in attempt controller\<close>

lemma getAttempt_new:
  "getAttempt None sys =
     Inr (\<lparr> attempt_id = Suc (attemptId sys),
            controller = \<lparr> signalReason = None, signalAborted = False \<rparr>,
            promise = Pending \<rparr>,
          sys\<lparr> attemptId := Suc (attemptId sys),
               AttemptStateMap := (AttemptStateMap sys)
                 (Suc (attemptId sys) \<mapsto>
                    \<lparr> attempt_id = Suc (attemptId sys),
                      controller = \<lparr> signalReason = None, signalAborted = False \<rparr>,
                      promise = Pending \<rparr>) \<rparr>)"
  by (simp add: getAttempt_def truthy_def)

lemma getAttempt_registered:
  "n \<noteq> 0 \<Longrightarrow> AttemptStateMap sys n = Some a \<Longrightarrow> getAttempt (Some n) sys = Inr (a, sys)"
  by (simp add: getAttempt_def truthy_def)

lemma getAttempt_missing:
  "n \<noteq> 0 \<Longrightarrow> AttemptStateMap sys n = None \<Longrightarrow>
   getAttempt (Some n) sys = Inl ''Trying to get the state for a non-existing sign in attempt''"
  by (simp add: getAttempt_def truthy_def)

subsection \<open>The registry of attempts\<close>

text \<open>
  The attempts are well registered at the start and stay so under every action creator
  and every action but a foreign \<open>AttemptStart\<close>: the current attempt, when there is
  one, has a positive id and is in the map under that id; and \<open>cancelSignIn\<close> never
  throws then.
\<close>

lemma registered_initial: "registered initialSignIn"
  by (simp add: registered_def initialSignIn_def INITIAL_STATE_def)

lemma registered_current:
  assumes "registered sys" and "currentAttemptId (store sys) = Some n"
  shows "n \<noteq> 0 \<and> (\<exists>a. AttemptStateMap sys n = Some a \<and> attempt_id a = n)"
  using assms unfolding registered_def by blast

lemma registered_dispatch:
  assumes "registered sys" and "\<forall>n. action \<noteq> AttemptStart n"
  shows "registered (dispatchSignIn sys action)"
  using assms
  by (cases action) (auto simp: registered_def dispatchSignIn_def INITIAL_STATE_def)

lemma registered_startAttempt:
  assumes "registered sys" and "startAttempt fn sys = Inr (attempt, sys')"
  shows "registered sys'"
  using assms
  by (fastforce simp: startAttempt_def getAttempt_new dispatchSignIn_def registered_def Let_def
        le_Suc_eq split: if_splits)

lemma registered_signInWithModalPrompt:
  "registered sys \<Longrightarrow> registered (fst (signInWithModalPrompt signal sys))"
  by (auto simp: signInWithModalPrompt_def registered_def
        dest!: registered_startAttempt [unfolded registered_def, rotated]
        split: sum.splits)

lemma registered_signInWithoutPrompt:
  "registered sys \<Longrightarrow> registered (fst (signInWithoutPrompt signal sys))"
  by (auto simp: signInWithoutPrompt_def registered_def
        dest!: registered_startAttempt [unfolded registered_def, rotated]
        split: sum.splits)

lemma registered_cancelSignIn:
  assumes "registered sys"
  shows "\<exists>sys'. cancelSignIn reason sys = Inr sys' \<and> registered sys'"
proof (cases "currentAttemptId (store sys)")
  case None
  with assms show ?thesis by (simp add: cancelSignIn_def)
next
  case (Some n)
  with assms obtain a where a: "n \<noteq> 0" "AttemptStateMap sys n = Some a" "attempt_id a = n"
    using registered_current by blast
  with Some assms show ?thesis
    by (auto simp: cancelSignIn_def getAttempt_registered dispatchSignIn_def registered_def
          INITIAL_STATE_def reject_def Let_def)
qed

lemma registered_closeSignInModal:
  assumes "registered sys"
  shows "\<exists>sys'. closeSignInModal reason sys = Inr sys' \<and> registered sys'"
proof -
  from registered_cancelSignIn [OF assms, of reason] obtain sys1
    where "cancelSignIn reason sys = Inr sys1" and "registered sys1" by blast
  then show ?thesis
    by (simp add: closeSignInModal_def registered_dispatch)
qed

lemma registered_tokenRefreshFailed: "registered sys \<Longrightarrow> registered (tokenRefreshFailed sys)"
  using registered_dispatch [of sys TokenRefreshFailed]
  by (simp add: tokenRefreshFailed_def registered_def Let_def)

lemma registered_signedOut: "registered sys \<Longrightarrow> registered (signedOut sys)"
  using registered_dispatch [of sys SignedOut]
  by (simp add: signedOut_def registered_def Let_def)

lemma registered_attemptSettled: "registered sys \<Longrightarrow> registered (attemptSettled n sys)"
  by (simp add: attemptSettled_def registered_dispatch)

lemma registered_truthy:
  "registered sys \<Longrightarrow> currentAttemptId (store sys) \<noteq> None \<Longrightarrow>
   truthy (currentAttemptId (store sys))"
  by (auto simp: truthy_def dest: registered_current)

subsection \<open>Starting and cancelling an attempt, a failed token refresh\<close>

text \<open>
  C2. While \<open>currentAttemptId\<close> holds an attempt's id (ids start at 1, so it is true
  in JavaScript's sense), \<open>startAttempt\<close> throws before it registers or dispatches
  anything, and so \<open>signInWithModalPrompt\<close> and \<open>signInWithoutPrompt\<close>, outside the
  state \<open>success\<close>, fail with that error and leave the store, the counter and the map of
  attempts as they were: nothing catches it. When no attempt is current,
  \<open>startAttempt\<close> registers one new attempt and makes it the current one.
\<close>

theorem startAttempt_throws_while_attempt_current:
  "(truthy (currentAttemptId (store sys)) \<longrightarrow>
      startAttempt fn sys =
        Inl ''Can't start sign in with prompt while another sign in attempt is in progress'' \<and>
      (state (store sys) \<noteq> success \<longrightarrow>
         signInWithModalPrompt signal sys =
           (sys, RejectedWith
              ''Can't start sign in with prompt while another sign in attempt is in progress'') \<and>
         signInWithoutPrompt signal sys =
           (sys, RejectedWith
              ''Can't start sign in with prompt while another sign in attempt is in progress''))) \<and>
   (\<not> truthy (currentAttemptId (store sys)) \<longrightarrow>
      (\<exists>attempt sys'.
         startAttempt fn sys = Inr (attempt, sys') \<and>
         attempt_id attempt = Suc (attemptId sys) \<and>
         currentAttemptId (store sys') = Some (Suc (attemptId sys)) \<and>
         truthy (currentAttemptId (store sys')) \<and>
         attemptId sys' = Suc (attemptId sys) \<and>
         AttemptStateMap sys' = (AttemptStateMap sys)(Suc (attemptId sys) \<mapsto> attempt)))"
proof (intro conjI impI)
  assume t: "truthy (currentAttemptId (store sys))"
  then show thrown: "startAttempt fn sys =
        Inl ''Can't start sign in with prompt while another sign in attempt is in progress''"
    by (simp add: startAttempt_def)
  assume n: "state (store sys) \<noteq> success"
  from t n show "signInWithModalPrompt signal sys =
           (sys, RejectedWith
              ''Can't start sign in with prompt while another sign in attempt is in progress'')"
    by (simp add: signInWithModalPrompt_def startAttempt_def)
  from t n show "signInWithoutPrompt signal sys =
           (sys, RejectedWith
              ''Can't start sign in with prompt while another sign in attempt is in progress'')"
    by (simp add: signInWithoutPrompt_def startAttempt_def)
next
  assume "\<not> truthy (currentAttemptId (store sys))"
  then show "\<exists>attempt sys'.
         startAttempt fn sys = Inr (attempt, sys') \<and>
         attempt_id attempt = Suc (attemptId sys) \<and>
         currentAttemptId (store sys') = Some (Suc (attemptId sys)) \<and>
         truthy (currentAttemptId (store sys')) \<and>
         attemptId sys' = Suc (attemptId sys) \<and>
         AttemptStateMap sys' = (AttemptStateMap sys)(Suc (attemptId sys) \<mapsto> attempt)"
    by (simp add: startAttempt_def getAttempt_new dispatchSignIn_def truthy_def Let_def)
qed

text \<open>
  C8. \<open>cancelSignIn\<close> returns at once when \<open>currentAttemptId\<close> is null. Otherwise,
  the current attempt being registered, its controller is aborted, its promise is
  rejected with the reason given or else the signal's reason, and the store becomes
  exactly: state \<open>canceled\<close>, no error, the modal closed, no current attempt. For an
  attempt not yet aborted nor settled and no reason given, the promise is rejected with
  the \<open>AbortError\<close> of the abort.
\<close>

theorem cancelSignIn_cancels_current_attempt:
  "(currentAttemptId (store sys) = None \<longrightarrow> cancelSignIn reason sys = Inr sys) \<and>
   (currentAttemptId (store sys) = Some n \<and> n \<noteq> 0 \<and>
    AttemptStateMap sys n = Some a \<and> attempt_id a = n \<longrightarrow>
      cancelSignIn reason sys =
        Inr (sys\<lparr> store :=
                    \<lparr> state = canceled, error = None, isModalOpen = False,
                      currentAttemptId = None \<rparr>,
                  AttemptStateMap := (AttemptStateMap sys)
                    (n \<mapsto> reject (a\<lparr> controller := abort (controller a) \<rparr>)
                           (case reason of
                              Some r \<Rightarrow> Some r
                            | None \<Rightarrow> signalReason (abort (controller a)))) \<rparr>) \<and>
      signalAborted (abort (controller a)) \<and>
      (\<not> signalAborted (controller a) \<and> promise a = Pending \<longrightarrow>
         reject (a\<lparr> controller := abort (controller a) \<rparr>)
           (case reason of Some r \<Rightarrow> Some r | None \<Rightarrow> signalReason (abort (controller a))) =
         a\<lparr> controller := \<lparr> signalReason = Some AbortError, signalAborted = True \<rparr>,
            promise := Rejected (case reason of Some r \<Rightarrow> Some r | None \<Rightarrow> Some AbortError) \<rparr>))"
proof (intro conjI impI)
  assume "currentAttemptId (store sys) = None"
  then show "cancelSignIn reason sys = Inr sys"
    by (simp add: cancelSignIn_def)
next
  assume h: "currentAttemptId (store sys) = Some n \<and> n \<noteq> 0 \<and>
    AttemptStateMap sys n = Some a \<and> attempt_id a = n"
  then have g: "getAttempt (Some n) sys = Inr (a, sys)"
    by (simp add: getAttempt_registered)
  from h g show "cancelSignIn reason sys =
        Inr (sys\<lparr> store :=
                    \<lparr> state = canceled, error = None, isModalOpen = False,
                      currentAttemptId = None \<rparr>,
                  AttemptStateMap := (AttemptStateMap sys)
                    (n \<mapsto> reject (a\<lparr> controller := abort (controller a) \<rparr>)
                           (case reason of
                              Some r \<Rightarrow> Some r
                            | None \<Rightarrow> signalReason (abort (controller a)))) \<rparr>)"
    by (cases reason) (simp_all add: cancelSignIn_def dispatchSignIn_def INITIAL_STATE_def Let_def)
  show "signalAborted (abort (controller a))"
    by (simp add: abort_def)
  assume "\<not> signalAborted (controller a) \<and> promise a = Pending"
  then show "reject (a\<lparr> controller := abort (controller a) \<rparr>)
           (case reason of Some r \<Rightarrow> Some r | None \<Rightarrow> signalReason (abort (controller a))) =
         a\<lparr> controller := \<lparr> signalReason = Some AbortError, signalAborted = True \<rparr>,
            promise := Rejected (case reason of Some r \<Rightarrow> Some r | None \<Rightarrow> Some AbortError) \<rparr>"
    by (simp add: reject_def abort_def split: option.splits)
qed

text \<open>
  C9. The action of \<open>tokenRefreshFailed\<close> leaves the state record as it is in any state
  but \<open>success\<close>, \<open>in-progress\<close> among them; in the state \<open>success\<close> the record
  becomes the initial one with the state \<open>error\<close>. So does the store under the thunk.
\<close>

theorem tokenRefreshFailed_resets_only_success:
  "(state st \<noteq> success \<longrightarrow> reducer st TokenRefreshFailed = st) \<and>
   (state st = in_progress \<longrightarrow> reducer st TokenRefreshFailed = st) \<and>
   (state st = success \<longrightarrow>
      reducer st TokenRefreshFailed = INITIAL_STATE\<lparr> state := error' \<rparr> \<and>
      reducer st TokenRefreshFailed =
        \<lparr> state = error', error = None, isModalOpen = False, currentAttemptId = None \<rparr>) \<and>
   store (tokenRefreshFailed sys) = reducer (store sys) TokenRefreshFailed"
  by (simp add: INITIAL_STATE_def tokenRefreshFailed_def dispatchSignIn_def Let_def)

theorem startAttempt_throws_while_attempt_current_witness:
  "startAttempt DispatchSignIn busySignIn =
     Inl ''Can't start sign in with prompt while another sign in attempt is in progress'' \<and>
   signInWithModalPrompt False busySignIn =
     (busySignIn, RejectedWith
        ''Can't start sign in with prompt while another sign in attempt is in progress'') \<and>
   signInWithoutPrompt False busySignIn =
     (busySignIn, RejectedWith
        ''Can't start sign in with prompt while another sign in attempt is in progress'') \<and>
   (\<exists>attempt sys'.
      startAttempt DispatchSignIn initialSignIn = Inr (attempt, sys') \<and>
      currentAttemptId (store sys') = Some 1 \<and>
      AttemptStateMap sys' = [1 \<mapsto> attempt])"
proof -
  have t: "truthy (currentAttemptId (store busySignIn))"
    and n: "state (store busySignIn) \<noteq> success"
    by (simp_all add: busySignIn_def truthy_def)
  have f: "\<not> truthy (currentAttemptId (store initialSignIn))"
    and z: "attemptId initialSignIn = 0" "AttemptStateMap initialSignIn = Map.empty"
    by (simp_all add: initialSignIn_def INITIAL_STATE_def truthy_def)
  from t n startAttempt_throws_while_attempt_current [of busySignIn DispatchSignIn False]
  have busy: "startAttempt DispatchSignIn busySignIn =
     Inl ''Can't start sign in with prompt while another sign in attempt is in progress'' \<and>
   signInWithModalPrompt False busySignIn =
     (busySignIn, RejectedWith
        ''Can't start sign in with prompt while another sign in attempt is in progress'') \<and>
   signInWithoutPrompt False busySignIn =
     (busySignIn, RejectedWith
        ''Can't start sign in with prompt while another sign in attempt is in progress'')"
    by blast
  from f startAttempt_throws_while_attempt_current [of initialSignIn DispatchSignIn False]
  have "\<exists>attempt sys'.
      startAttempt DispatchSignIn initialSignIn = Inr (attempt, sys') \<and>
      currentAttemptId (store sys') = Some 1 \<and>
      AttemptStateMap sys' = [1 \<mapsto> attempt]"
    unfolding z by auto
  with busy show ?thesis by blast
qed

theorem cancelSignIn_cancels_current_attempt_witness:
  "cancelSignIn None initialSignIn = Inr initialSignIn \<and>
   cancelSignIn None busySignIn =
     Inr (busySignIn
            \<lparr> store := \<lparr> state = canceled, error = None, isModalOpen = False,
                         currentAttemptId = None \<rparr>,
              AttemptStateMap :=
                [1 \<mapsto> \<lparr> attempt_id = 1,
                        controller = \<lparr> signalReason = Some AbortError, signalAborted = True \<rparr>,
                        promise = Rejected (Some AbortError) \<rparr>] \<rparr>)"
proof -
  have i: "currentAttemptId (store initialSignIn) = None"
    by (simp add: initialSignIn_def INITIAL_STATE_def)
  have b: "currentAttemptId (store busySignIn) = Some 1 \<and> (1::nat) \<noteq> 0 \<and>
      AttemptStateMap busySignIn 1 =
        Some \<lparr> attempt_id = 1,
               controller = \<lparr> signalReason = None, signalAborted = False \<rparr>,
               promise = Pending \<rparr> \<and>
      attempt_id \<lparr> attempt_id = 1,
                   controller = \<lparr> signalReason = None, signalAborted = False \<rparr>,
                   promise = Pending \<rparr> = 1"
    by (simp add: busySignIn_def)
  have m: "(AttemptStateMap busySignIn)(Suc 0 \<mapsto> x) = [Suc 0 \<mapsto> x]" for x
    by (simp add: busySignIn_def)
  from i cancelSignIn_cancels_current_attempt [of initialSignIn None]
  have "cancelSignIn None initialSignIn = Inr initialSignIn"
    by blast
  moreover
  from b cancelSignIn_cancels_current_attempt
      [of busySignIn None 1
          "\<lparr> attempt_id = 1,
             controller = \<lparr> signalReason = None, signalAborted = False \<rparr>,
             promise = Pending \<rparr>"]
  have "cancelSignIn None busySignIn =
     Inr (busySignIn
            \<lparr> store := \<lparr> state = canceled, error = None, isModalOpen = False,
                         currentAttemptId = None \<rparr>,
              AttemptStateMap :=
                [1 \<mapsto> \<lparr> attempt_id = 1,
                        controller = \<lparr> signalReason = Some AbortError, signalAborted = True \<rparr>,
                        promise = Rejected (Some AbortError) \<rparr>] \<rparr>)"
    by (simp add: m reject_def abort_def)
  ultimately show ?thesis by blast
qed

theorem tokenRefreshFailed_resets_only_success_witness:
  "reducer \<lparr> state = in_progress, error = None, isModalOpen = True,
             currentAttemptId = Some 1 \<rparr> TokenRefreshFailed =
     \<lparr> state = in_progress, error = None, isModalOpen = True, currentAttemptId = Some 1 \<rparr> \<and>
   reducer \<lparr> state = success, error = None, isModalOpen = True,
             currentAttemptId = Some 1 \<rparr> TokenRefreshFailed =
     \<lparr> state = error', error = None, isModalOpen = False, currentAttemptId = None \<rparr>"
  using tokenRefreshFailed_resets_only_success
      [of "\<lparr> state = in_progress, error = None, isModalOpen = True,
             currentAttemptId = Some 1 \<rparr>" initialSignIn]
    tokenRefreshFailed_resets_only_success
      [of "\<lparr> state = success, error = None, isModalOpen = True,
             currentAttemptId = Some 1 \<rparr>" initialSignIn]
  by simp

text \<open>Starting an attempt and cancelling it: the hypotheses of the cancellation hold.\<close>

lemma cancelSignIn_after_startAttempt:
  assumes "\<not> truthy (currentAttemptId (store sys))"
    and "startAttempt fn sys = Inr (attempt, sys')"
  shows "\<exists>sys''. cancelSignIn None sys' = Inr sys'' \<and>
           store sys'' =
             \<lparr> state = canceled, error = None, isModalOpen = False, currentAttemptId = None \<rparr> \<and>
           AttemptStateMap sys'' (attempt_id attempt) =
             Some (attempt\<lparr> controller := \<lparr> signalReason = Some AbortError, signalAborted = True \<rparr>,
                           promise := Rejected (Some AbortError) \<rparr>)"
  using assms
  by (auto simp: startAttempt_def getAttempt_new dispatchSignIn_def cancelSignIn_def
        getAttempt_registered INITIAL_STATE_def reject_def abort_def Let_def)

end
